theory Spec2Isabelle
  imports Complex_Main "HOL-Library.Char_ord" "HOL-Library.List_Lexorder"
begin

section \<open>Amounts\<close>

text \<open>
  An amount is a Python \<open>float\<close> on its way in and out and a \<open>REAL\<close> in the database:
  an IEEE binary64 number, an infinity, or a NaN. \<open>Fin x\<close> is the number \<open>x\<close>; the two
  zeros are not told apart (they compare equal and are both falsy). \<open>get_amount\<close>
  returns \<open>float(user_input)\<close>, which also accepts the texts \<open>inf\<close>, \<open>-inf\<close> and \<open>nan\<close>.
\<close>

datatype py_float = Fin real | PInf | NInf | NaN

text \<open>Python's \<open><\<close> and \<open><=\<close> on floats; every comparison with a NaN is false.\<close>

fun float_lt :: "py_float \<Rightarrow> py_float \<Rightarrow> bool" where
  "float_lt (Fin a) (Fin b) = (a < b)"
| "float_lt (Fin a) PInf = True"
| "float_lt NInf (Fin b) = True"
| "float_lt NInf PInf = True"
| "float_lt _ _ = False"

fun float_le :: "py_float \<Rightarrow> py_float \<Rightarrow> bool" where
  "float_le (Fin a) (Fin b) = (a \<le> b)"
| "float_le (Fin a) PInf = True"
| "float_le NInf (Fin b) = True"
| "float_le NInf PInf = True"
| "float_le NInf NInf = True"
| "float_le PInf PInf = True"
| "float_le _ _ = False"

subsection \<open>Rounding to binary64\<close>

text \<open>
  Round to nearest, ties to even, with 53 significant bits, exponents from \<open>-1022\<close> to
  \<open>1023\<close>, gradual underflow and overflow to infinity. \<open>exponent a\<close> is the exponent of
  the binade of \<open>a > 0\<close>: the \<open>e\<close> with \<open>2 ^ e \<le> a < 2 ^ (e + 1)\<close>, but \<open>-1022\<close> for every
  smaller \<open>a\<close> (the subnormal numbers share one quantum) and \<open>1024\<close> for every larger
  one (which rounds to infinity). This is the rounding of \<open>float(text)\<close> on a decimal text
  and of every arithmetic operation on floats.
\<close>

fun exponent_down :: "nat \<Rightarrow> real \<Rightarrow> int" where
  "exponent_down k a = (if k = 0 \<or> 1 \<le> a then 0 else exponent_down (k - 1) (2 * a) - 1)"

fun exponent_up :: "nat \<Rightarrow> real \<Rightarrow> int" where
  "exponent_up k a = (if k = 0 \<or> a < 2 then 0 else exponent_up (k - 1) (a / 2) + 1)"

declare exponent_down.simps [simp del] exponent_up.simps [simp del]

definition exponent :: "real \<Rightarrow> int" where
  "exponent a = (if a < 1 then exponent_down 1022 a else exponent_up 1024 a)"

definition round_half_even :: "real \<Rightarrow> int" where
  "round_half_even x =
     (let f = \<lfloor>x\<rfloor>; d = x - of_int f
      in if d < 1 / 2 then f else if 1 / 2 < d then f + 1 else if even f then f else f + 1)"

definition round_double :: "real \<Rightarrow> py_float" where
  "round_double x =
     (if x = 0 then Fin 0
      else let a = \<bar>x\<bar>;
               e = exponent a;
               r = (if 52 \<le> e
                    then of_int (round_half_even (a / 2 ^ nat (e - 52))) * 2 ^ nat (e - 52)
                    else of_int (round_half_even (a * 2 ^ nat (52 - e))) / 2 ^ nat (52 - e))
           in if 2 ^ 1024 \<le> r then (if 0 < x then PInf else NInf)
              else Fin (if 0 < x then r else - r))"

text \<open>Python's \<open>+\<close>, unary \<open>-\<close> and binary \<open>-\<close> on floats.\<close>

fun float_add :: "py_float \<Rightarrow> py_float \<Rightarrow> py_float" where
  "float_add (Fin a) (Fin b) = round_double (a + b)"
| "float_add NaN _ = NaN"
| "float_add _ NaN = NaN"
| "float_add PInf NInf = NaN"
| "float_add NInf PInf = NaN"
| "float_add PInf _ = PInf"
| "float_add _ PInf = PInf"
| "float_add NInf _ = NInf"
| "float_add _ NInf = NInf"

fun float_minus :: "py_float \<Rightarrow> py_float" where
  "float_minus (Fin a) = Fin (- a)"
| "float_minus PInf = NInf"
| "float_minus NInf = PInf"
| "float_minus NaN = NaN"

definition float_sub :: "py_float \<Rightarrow> py_float \<Rightarrow> py_float" where
  "float_sub x y = float_add x (float_minus y)"

subsection \<open>Floats in SQLite\<close>

text \<open>
  A \<open>REAL\<close> column holds a float or \<open>NULL\<close> (\<open>None\<close>). SQLite has no NaN: binding a NaN
  to a parameter stores \<open>NULL\<close>, and a NaN result of a function is returned as \<open>NULL\<close>.
\<close>

definition sqlite_double :: "py_float \<Rightarrow> py_float option" where
  "sqlite_double x = (if x = NaN then None else Some x)"

fun non_null :: "'a option list \<Rightarrow> 'a list" where
  "non_null [] = []"
| "non_null (None # vs) = non_null vs"
| "non_null (Some x # vs) = x # non_null vs"

text \<open>
  \<open>SUM(col)\<close> skips \<open>NULL\<close>s and is \<open>NULL\<close> when no value is left. How the floats are added
  is the library's business and differs between versions of SQLite, so the summation is
  a parameter \<open>fsum\<close> of the summary: a function from the values, in row order, to their
  floating-point sum. \<open>sum_plain\<close> is the accumulation \<open>rSum += value\<close> from \<open>0.0\<close>, one
  rounding for each row, as older versions of SQLite do it; newer versions also carry a
  compensation term. On values whose partial sums are integers below \<open>2 ^ 53\<close>, as in
  the seed data, every such summation is exact.
\<close>

definition sql_sum :: "(py_float list \<Rightarrow> py_float) \<Rightarrow> py_float option list \<Rightarrow> py_float option" where
  "sql_sum fsum col =
     (let xs = non_null col in if xs = [] then None else sqlite_double (fsum xs))"

definition sum_plain :: "py_float list \<Rightarrow> py_float" where
  "sum_plain xs = foldl float_add (Fin 0) xs"

text \<open>\<open>WHERE a >= b\<close>: true only when neither side is \<open>NULL\<close>.\<close>

definition sql_ge :: "py_float option \<Rightarrow> py_float option \<Rightarrow> bool" where
  "sql_ge x y = (case (x, y) of (Some a, Some b) \<Rightarrow> float_le b a | _ \<Rightarrow> False)"

subsection \<open>Fetched values in Python\<close>

datatype py_error = TypeError

text \<open>
  \<open>x or 0.0\<close> replaces \<open>None\<close> and zero by \<open>0.0\<close>; \<open>x > y\<close> raises \<open>TypeError\<close> when either
  side is \<open>None\<close>.
\<close>

definition or_zero :: "py_float option \<Rightarrow> py_float" where
  "or_zero v = (case v of None \<Rightarrow> Fin 0 | Some x \<Rightarrow> if x = Fin 0 then Fin 0 else x)"

definition py_gt :: "py_float option \<Rightarrow> py_float option \<Rightarrow> py_error + bool" where
  "py_gt x y = (case (x, y) of (Some a, Some b) \<Rightarrow> Inr (float_lt b a) | _ \<Rightarrow> Inl TypeError)"

text \<open>\<open>cursor.fetchone()\<close>: the first row of the result, \<open>None\<close> when there is none.\<close>

definition fetchone :: "'a list \<Rightarrow> 'a option" where
  "fetchone rows = (case rows of [] \<Rightarrow> None | r # _ \<Rightarrow> Some r)"

section \<open>The four tables of expense\_tracker.db\<close>

text \<open>
  The program keeps its state in an SQLite file with four tables, created by
  \<open>create_database\<close>. A table is modelled as the list of its rows in rowid order, which is
  the order a table scan returns them in and, since a fresh rowid is larger than every
  rowid present, also insertion order. The \<open>TEXT\<close> columns are byte strings, compared
  with \<open>=\<close> as the \<open>BINARY\<close> collation does.
\<close>

record expense =
  e_id :: nat
  e_category :: string
  e_amount :: "py_float option"
  e_due_date :: string

record income_row =
  i_id :: nat
  i_category :: string
  i_amount :: "py_float option"
  i_pay_date :: string

record budget =
  b_id :: nat
  b_category :: string
  b_budget_amount :: "py_float option"

record financial_goal =
  g_id :: nat
  g_goal :: string
  g_target_amount :: "py_float option"
  g_saved_amount :: "py_float option"

record store =
  expenses :: "expense list"
  income :: "income_row list"
  budgets :: "budget list"
  financial_goals :: "financial_goal list"

text \<open>
  \<open>id INTEGER PRIMARY KEY\<close> without a value: SQLite assigns one more than the largest
  rowid of the table, and 1 in an empty table.
\<close>

definition next_rowid :: "nat list \<Rightarrow> nat" where
  "next_rowid ids = Suc (fold max ids 0)"

subsection \<open>Seed data\<close>

text \<open>
  \<open>create_database\<close> on a machine where the file does not exist yet: the four
  \<open>executemany\<close> inserts into the empty tables.
\<close>

definition create_database :: store where
  "create_database = \<lparr>
     expenses = [
       \<lparr>e_id = 1, e_category = ''Groceries'', e_amount = Some (Fin 50),
        e_due_date = ''2024-12-01''\<rparr>,
       \<lparr>e_id = 2, e_category = ''Utilities'', e_amount = Some (Fin 100),
        e_due_date = ''2024-12-02''\<rparr>,
       \<lparr>e_id = 3, e_category = ''Transport'', e_amount = Some (Fin 20),
        e_due_date = ''2024-12-03''\<rparr>,
       \<lparr>e_id = 4, e_category = ''Dining'', e_amount = Some (Fin 30),
        e_due_date = ''2024-12-04''\<rparr>,
       \<lparr>e_id = 5, e_category = ''Entertainment'', e_amount = Some (Fin 40),
        e_due_date = ''2024-12-05''\<rparr>],
     income = [
       \<lparr>i_id = 1, i_category = ''Salary'', i_amount = Some (Fin 2000),
        i_pay_date = ''2024-12-01''\<rparr>,
       \<lparr>i_id = 2, i_category = ''Freelancing'', i_amount = Some (Fin 500),
        i_pay_date = ''2024-12-02''\<rparr>,
       \<lparr>i_id = 3, i_category = ''Investments'', i_amount = Some (Fin 300),
        i_pay_date = ''2024-12-03''\<rparr>,
       \<lparr>i_id = 4, i_category = ''Gifts'', i_amount = Some (Fin 100),
        i_pay_date = ''2024-12-04''\<rparr>,
       \<lparr>i_id = 5, i_category = ''Other'', i_amount = Some (Fin 50),
        i_pay_date = ''2024-12-05''\<rparr>],
     budgets = [
       \<lparr>b_id = 1, b_category = ''Groceries'', b_budget_amount = Some (Fin 300)\<rparr>,
       \<lparr>b_id = 2, b_category = ''Utilities'', b_budget_amount = Some (Fin 150)\<rparr>,
       \<lparr>b_id = 3, b_category = ''Transport'', b_budget_amount = Some (Fin 100)\<rparr>,
       \<lparr>b_id = 4, b_category = ''Dining'', b_budget_amount = Some (Fin 200)\<rparr>,
       \<lparr>b_id = 5, b_category = ''Entertainment'', b_budget_amount = Some (Fin 150)\<rparr>],
     financial_goals = [
       \<lparr>g_id = 1, g_goal = ''Buy a car'', g_target_amount = Some (Fin 20000),
        g_saved_amount = Some (Fin 5000)\<rparr>,
       \<lparr>g_id = 2, g_goal = ''Vacation'', g_target_amount = Some (Fin 5000),
        g_saved_amount = Some (Fin 1500)\<rparr>,
       \<lparr>g_id = 3, g_goal = ''Emergency fund'', g_target_amount = Some (Fin 10000),
        g_saved_amount = Some (Fin 3000)\<rparr>,
       \<lparr>g_id = 4, g_goal = ''Home renovation'', g_target_amount = Some (Fin 15000),
        g_saved_amount = Some (Fin 4000)\<rparr>,
       \<lparr>g_id = 5, g_goal = ''New laptop'', g_target_amount = Some (Fin 2000),
        g_saved_amount = Some (Fin 800)\<rparr>]\<rparr>"

section \<open>The operations of the menus\<close>

text \<open>
  Every operation opens a connection, runs its statements and commits, inside
  \<open>try ... except Exception as e: print(f"Error: {e}")\<close>. An operation is modelled as a
  function from its validated inputs and the store to the store it leaves and the line
  it prints last. The texts and floats that the source reads with \<open>get_category\<close>,
  \<open>get_amount\<close>, \<open>get_date\<close>, \<open>validate_category_input\<close> and
  \<open>validate_financial_goal_input\<close> are the parameters; a float is bound to its
  statement with \<open>sqlite_double\<close>.
\<close>

datatype message =
    Category_already_exists
  | Expense_added
  | Expense_updated
  | Expense_deleted
  | Income_added
  | Income_updated
  | Income_deleted
  | Budget_updated
  | Budget_set
  | Goal_set
  | Goal_updated
  | Goal_deleted
  | Error py_error

subsection \<open>Expenses\<close>

definition insert_expense :: "string \<Rightarrow> py_float \<Rightarrow> string \<Rightarrow> store \<Rightarrow> store \<times> message" where
  "insert_expense expense_category expense_amount date_str s =
     (case fetchone [e_category e. e \<leftarrow> expenses s, e_category e = expense_category] of
        Some _ \<Rightarrow> (s, Category_already_exists)
      | None \<Rightarrow>
          (s\<lparr>expenses := expenses s @
               [\<lparr>e_id = next_rowid (map e_id (expenses s)), e_category = expense_category,
                 e_amount = sqlite_double expense_amount, e_due_date = date_str\<rparr>]\<rparr>,
           Expense_added))"

text \<open>\<open>UPDATE expenses SET amount = ? WHERE category = ?\<close>\<close>

definition update_expenses_set_amount :: "string \<Rightarrow> py_float \<Rightarrow> store \<Rightarrow> store" where
  "update_expenses_set_amount expense_category new_amount s =
     s\<lparr>expenses :=
         map (\<lambda>e. if e_category e = expense_category
                   then e\<lparr>e_amount := sqlite_double new_amount\<rparr> else e)
           (expenses s)\<rparr>"

definition update_expense :: "string \<Rightarrow> py_float \<Rightarrow> store \<Rightarrow> store \<times> message" where
  "update_expense expense_category new_amount s =
     (update_expenses_set_amount expense_category new_amount s, Expense_updated)"

definition delete_expense :: "string \<Rightarrow> store \<Rightarrow> store \<times> message" where
  "delete_expense category s =
     (let s1 = s\<lparr>expenses := filter (\<lambda>e. e_category e \<noteq> category) (expenses s)\<rparr>;
          s2 = s1\<lparr>budgets := filter (\<lambda>b. b_category b \<noteq> category) (budgets s1)\<rparr>
      in (s2, Expense_deleted))"

subsection \<open>Income\<close>

definition insert_income :: "string \<Rightarrow> py_float \<Rightarrow> string \<Rightarrow> store \<Rightarrow> store \<times> message" where
  "insert_income income_category income_amount date_str s =
     (case fetchone [i_category r. r \<leftarrow> income s, i_category r = income_category] of
        Some _ \<Rightarrow> (s, Category_already_exists)
      | None \<Rightarrow>
          (s\<lparr>income := income s @
               [\<lparr>i_id = next_rowid (map i_id (income s)), i_category = income_category,
                 i_amount = sqlite_double income_amount, i_pay_date = date_str\<rparr>]\<rparr>,
           Income_added))"

text \<open>\<open>UPDATE income SET amount = ? WHERE category = ?\<close>\<close>

definition update_income_set_amount :: "string \<Rightarrow> py_float \<Rightarrow> store \<Rightarrow> store" where
  "update_income_set_amount income_category new_amount s =
     s\<lparr>income :=
         map (\<lambda>r. if i_category r = income_category
                   then r\<lparr>i_amount := sqlite_double new_amount\<rparr> else r)
           (income s)\<rparr>"

definition update_income :: "string \<Rightarrow> py_float \<Rightarrow> store \<Rightarrow> store \<times> message" where
  "update_income income_category new_amount s =
     (update_income_set_amount income_category new_amount s, Income_updated)"

definition delete_income :: "string \<Rightarrow> store \<Rightarrow> store \<times> message" where
  "delete_income income_category s =
     (s\<lparr>income := filter (\<lambda>r. i_category r \<noteq> income_category) (income s)\<rparr>, Income_deleted)"

subsection \<open>Budgets\<close>

definition set_budget :: "string \<Rightarrow> py_float \<Rightarrow> store \<Rightarrow> store \<times> message" where
  "set_budget budget_category budget_amount s =
     (case fetchone [b_budget_amount b. b \<leftarrow> budgets s, b_category b = budget_category] of
        Some existing_budget \<Rightarrow>
          (s\<lparr>budgets :=
               map (\<lambda>b. if b_category b = budget_category
                         then b\<lparr>b_budget_amount := sqlite_double budget_amount\<rparr> else b)
                 (budgets s)\<rparr>,
           Budget_updated)
      | None \<Rightarrow>
          (s\<lparr>budgets := budgets s @
               [\<lparr>b_id = next_rowid (map b_id (budgets s)), b_category = budget_category,
                 b_budget_amount = sqlite_double budget_amount\<rparr>]\<rparr>,
           Budget_set))"

subsection \<open>Financial goals\<close>

definition set_financial_goal ::
  "string \<Rightarrow> py_float \<Rightarrow> py_float \<Rightarrow> store \<Rightarrow> store \<times> message" where
  "set_financial_goal financial_goal target_amount saved_amount s =
     (s\<lparr>financial_goals := financial_goals s @
          [\<lparr>g_id = next_rowid (map g_id (financial_goals s)), g_goal = financial_goal,
            g_target_amount = sqlite_double target_amount,
            g_saved_amount = sqlite_double saved_amount\<rparr>]\<rparr>,
      Goal_set)"

text \<open>\<open>UPDATE financial_goals SET saved_amount = ? WHERE goal = ?\<close>\<close>

definition update_financial_goals_set_saved_amount ::
  "string \<Rightarrow> py_float \<Rightarrow> store \<Rightarrow> store" where
  "update_financial_goals_set_saved_amount financial_goal new_saved_amount s =
     s\<lparr>financial_goals :=
         map (\<lambda>g. if g_goal g = financial_goal
                   then g\<lparr>g_saved_amount := sqlite_double new_saved_amount\<rparr> else g)
           (financial_goals s)\<rparr>"

text \<open>
  \<open>update_financial_goal\<close> first reads the row to show the current saved amount:
  \<open>result = cursor.fetchone(); current_saved_amount = result[3]\<close>. With no such row
  \<open>result\<close> is \<open>None\<close>, the subscript raises \<open>TypeError\<close>, and the handler prints it; the
  \<open>UPDATE\<close> is not reached. The goal text comes from
  \<open>validate_financial_goal_input\<close>, which returns a text of the table.
\<close>

definition update_financial_goal :: "string \<Rightarrow> py_float \<Rightarrow> store \<Rightarrow> store \<times> message" where
  "update_financial_goal financial_goal new_saved_amount s =
     (case fetchone [g. g \<leftarrow> financial_goals s, g_goal g = financial_goal] of
        None \<Rightarrow> (s, Error TypeError)
      | Some result \<Rightarrow>
          (update_financial_goals_set_saved_amount financial_goal new_saved_amount s,
           Goal_updated))"

definition delete_financial_goal :: "string \<Rightarrow> store \<Rightarrow> store \<times> message" where
  "delete_financial_goal financial_goal s =
     (s\<lparr>financial_goals := filter (\<lambda>g. g_goal g \<noteq> financial_goal) (financial_goals s)\<rparr>,
      Goal_deleted)"

section \<open>The budget summary\<close>

text \<open>
  \<open>budget_summary\<close> runs \<open>SELECT\<close> statements only and closes its connection without a
  commit. Every \<open>cursor.execute\<close> is modelled as a step that takes the store and returns
  the rows it fetched with the store it leaves, and \<open>budget_summary\<close> passes the store
  from one step to the next. It has no \<open>try\<close>: an exception ends it, and the program,
  at the statement that raises.
\<close>

type_synonym 'a query = "store \<Rightarrow> 'a \<times> store"

definition select_sum_income :: "(py_float list \<Rightarrow> py_float) \<Rightarrow> py_float option query" where
  "select_sum_income fsum s = (sql_sum fsum (map i_amount (income s)), s)"

definition select_sum_expenses :: "(py_float list \<Rightarrow> py_float) \<Rightarrow> py_float option query" where
  "select_sum_expenses fsum s = (sql_sum fsum (map e_amount (expenses s)), s)"

definition select_sum_budgets :: "(py_float list \<Rightarrow> py_float) \<Rightarrow> py_float option query" where
  "select_sum_budgets fsum s = (sql_sum fsum (map b_budget_amount (budgets s)), s)"

text \<open>
  \<open>SELECT category, SUM(amount) FROM expenses GROUP BY category\<close>: one row for each
  distinct category. SQLite groups by sorting on the key, so the groups come out in the
  byte order of the category text.
\<close>

definition spent :: "(py_float list \<Rightarrow> py_float) \<Rightarrow> store \<Rightarrow> string \<Rightarrow> py_float option" where
  "spent fsum s c = sql_sum fsum [e_amount e. e \<leftarrow> expenses s, e_category e = c]"

definition select_expenses_group_by_category ::
  "(py_float list \<Rightarrow> py_float) \<Rightarrow> (string \<times> py_float option) list query" where
  "select_expenses_group_by_category fsum s =
     (map (\<lambda>c. (c, spent fsum s c)) (sort (remdups (map e_category (expenses s)))), s)"

definition select_budget_amount :: "string \<Rightarrow> py_float option list query" where
  "select_budget_amount category s =
     ([b_budget_amount b. b \<leftarrow> budgets s, b_category b = category], s)"

definition select_achieved_goals :: "string list query" where
  "select_achieved_goals s =
     ([g_goal g. g \<leftarrow> financial_goals s, sql_ge (g_saved_amount g) (g_target_amount g)], s)"

text \<open>
  The loop over \<open>expense_categories\<close>, with the two lists it appends to as
  accumulators. \<open>budget_amount is None\<close> tests for a missing row; the amount in a row
  that is there may still be \<open>None\<close>, and so may the summed expense, and then
  \<open>expense_amount > budget_amount[0]\<close> raises.
\<close>

fun compare_categories ::
  "(string \<times> py_float option) list \<Rightarrow>
   (string \<times> py_float option \<times> py_float option) list \<Rightarrow> (string \<times> py_float option) list \<Rightarrow>
     (py_error +
      (string \<times> py_float option \<times> py_float option) list \<times> (string \<times> py_float option) list)
     query" where
  "compare_categories [] over_budget_categories no_budget_categories s =
     (Inr (over_budget_categories, no_budget_categories), s)"
| "compare_categories ((category, expense_amount) # rest)
       over_budget_categories no_budget_categories s =
     (case select_budget_amount category s of (rows, s1) \<Rightarrow>
        (case fetchone rows of
           None \<Rightarrow>
             compare_categories rest over_budget_categories
               (no_budget_categories @ [(category, expense_amount)]) s1
         | Some budget_amount \<Rightarrow>
             (case py_gt expense_amount budget_amount of
                Inl e \<Rightarrow> (Inl e, s1)
              | Inr over \<Rightarrow>
                  if over
                  then compare_categories rest
                         (over_budget_categories @ [(category, expense_amount, budget_amount)])
                         no_budget_categories s1
                  else compare_categories rest over_budget_categories
                         no_budget_categories s1)))"

record summary =
  total_income :: py_float
  total_expenses :: py_float
  total_budgeted :: py_float
  balance :: py_float
  budget_status :: string
  over_budget_categories :: "(string \<times> py_float option \<times> py_float option) list"
  no_budget_categories :: "(string \<times> py_float option) list"
  achieved_goals :: "string list"

definition budget_summary :: "(py_float list \<Rightarrow> py_float) \<Rightarrow> (py_error + summary) query" where
  "budget_summary fsum s =
     (case select_sum_income fsum s of (r_income, s1) \<Rightarrow>
      case select_sum_expenses fsum s1 of (r_expenses, s2) \<Rightarrow>
      case select_sum_budgets fsum s2 of (r_budgets, s3) \<Rightarrow>
      case select_expenses_group_by_category fsum s3 of (expense_categories, s4) \<Rightarrow>
      case compare_categories expense_categories [] [] s4 of
        (Inl e, s5) \<Rightarrow> (Inl e, s5)
      | (Inr (over, no), s5) \<Rightarrow>
          (let t_income = or_zero r_income;
               t_expenses = or_zero r_expenses;
               t_budgeted = or_zero r_budgets;
               bal = float_sub t_income t_expenses;
               status = (if float_le t_expenses t_budgeted \<and> float_lt (Fin 0) bal
                         then ''within budget'' else ''over budget'')
           in case select_achieved_goals s5 of (goals, s6) \<Rightarrow>
                (Inr \<lparr>total_income = t_income, total_expenses = t_expenses,
                      total_budgeted = t_budgeted, balance = bal, budget_status = status,
                      over_budget_categories = over, no_budget_categories = no,
                      achieved_goals = goals\<rparr>, s6)))"

text \<open>
  What one pass of the loop does, as a function of the group: whether it raises, and
  what it appends to each list. The loop is the concatenation of these over the groups,
  up to the first pass that raises (lemma \<open>compare_categories_eq\<close> below).
\<close>

definition raises_TypeError :: "store \<Rightarrow> string \<times> py_float option \<Rightarrow> bool" where
  "raises_TypeError s p =
     (case find (\<lambda>b. b_category b = fst p) (budgets s) of
        None \<Rightarrow> False
      | Some b \<Rightarrow> snd p = None \<or> b_budget_amount b = None)"

definition over_budget_entry ::
  "store \<Rightarrow> string \<times> py_float option \<Rightarrow> (string \<times> py_float option \<times> py_float option) list" where
  "over_budget_entry s p =
     (case find (\<lambda>b. b_category b = fst p) (budgets s) of
        None \<Rightarrow> []
      | Some b \<Rightarrow>
          if py_gt (snd p) (b_budget_amount b) = Inr True
          then [(fst p, snd p, b_budget_amount b)] else [])"

definition no_budget_entry ::
  "store \<Rightarrow> string \<times> py_float option \<Rightarrow> (string \<times> py_float option) list" where
  "no_budget_entry s p =
     (case find (\<lambda>b. b_category b = fst p) (budgets s) of None \<Rightarrow> [p] | Some b \<Rightarrow> [])"

text \<open>What \<open>budget_summary\<close> prints for a store, or the exception that ends it.\<close>

abbreviation report :: "(py_float list \<Rightarrow> py_float) \<Rightarrow> store \<Rightarrow> py_error + summary" where
  "report fsum s \<equiv> fst (budget_summary fsum s)"

section \<open>The program as a transition system\<close>

text \<open>
  The operations of the four submenus that write to the store, and the summary. The
  \<open>view_*\<close> and \<open>total_*\<close> entries only read and print, and are left out.
\<close>

datatype operation =
    Add_expense string py_float string
  | Update_expense string py_float
  | Delete_expense string
  | Add_income string py_float string
  | Update_income string py_float
  | Delete_income string
  | Set_budget string py_float
  | Set_financial_goal string py_float py_float
  | Update_financial_goal string py_float
  | Delete_financial_goal string
  | Budget_summary

fun run :: "(py_float list \<Rightarrow> py_float) \<Rightarrow> operation \<Rightarrow> store \<Rightarrow> store" where
  "run fsum (Add_expense c a d) s = fst (insert_expense c a d s)"
| "run fsum (Update_expense c a) s = fst (update_expense c a s)"
| "run fsum (Delete_expense c) s = fst (delete_expense c s)"
| "run fsum (Add_income c a d) s = fst (insert_income c a d s)"
| "run fsum (Update_income c a) s = fst (update_income c a s)"
| "run fsum (Delete_income c) s = fst (delete_income c s)"
| "run fsum (Set_budget c a) s = fst (set_budget c a s)"
| "run fsum (Set_financial_goal g t a) s = fst (set_financial_goal g t a s)"
| "run fsum (Update_financial_goal g a) s = fst (update_financial_goal g a s)"
| "run fsum (Delete_financial_goal g) s = fst (delete_financial_goal g s)"
| "run fsum Budget_summary s = snd (budget_summary fsum s)"

text \<open>
  \<open>validate_category_input(table)\<close> and \<open>validate_financial_goal_input(table)\<close> prompt
  until the text entered is one of the \<open>SELECT DISTINCT\<close> values of the table, so an
  operation that starts with one of them is offered only with such a text. The texts
  read by \<open>get_category\<close> and \<open>get_financial_goal\<close> are not restricted here: the
  reachable stores below include every store the menus can produce.
\<close>

fun offered :: "store \<Rightarrow> operation \<Rightarrow> bool" where
  "offered s (Update_expense c a) = (c \<in> set (map e_category (expenses s)))"
| "offered s (Delete_expense c) = (c \<in> set (map e_category (expenses s)))"
| "offered s (Update_income c a) = (c \<in> set (map i_category (income s)))"
| "offered s (Delete_income c) = (c \<in> set (map i_category (income s)))"
| "offered s (Set_budget c a) = (c \<in> set (map e_category (expenses s)))"
| "offered s (Update_financial_goal g a) = (g \<in> set (map g_goal (financial_goals s)))"
| "offered s (Delete_financial_goal g) = (g \<in> set (map g_goal (financial_goals s)))"
| "offered s _ = True"

inductive reachable :: "(py_float list \<Rightarrow> py_float) \<Rightarrow> store \<Rightarrow> bool"
  for fsum :: "py_float list \<Rightarrow> py_float" where
  seed: "reachable fsum create_database"
| step: "reachable fsum s \<Longrightarrow> offered s op \<Longrightarrow> reachable fsum (run fsum op s)"

section \<open>Facts about floats and queries\<close>

lemmas float_eval =
  round_double_def exponent_def exponent_up.simps exponent_down.simps round_half_even_def
  float_sub_def sum_plain_def sqlite_double_def sql_sum_def sql_ge_def or_zero_def py_gt_def
  Let_def

lemmas store_defs =
  create_database_def insert_expense_def update_expense_def update_expenses_set_amount_def
  delete_expense_def insert_income_def update_income_def update_income_set_amount_def
  delete_income_def set_budget_def set_financial_goal_def update_financial_goal_def
  update_financial_goals_set_saved_amount_def delete_financial_goal_def fetchone_def
  next_rowid_def

lemmas summary_defs =
  budget_summary_def select_sum_income_def select_sum_expenses_def select_sum_budgets_def
  select_expenses_group_by_category_def select_budget_amount_def select_achieved_goals_def
  spent_def

lemma fetchone_filter_find:
  "fetchone [f x. x \<leftarrow> xs, P x] = map_option f (find P xs)"
  by (induction xs) (simp_all add: fetchone_def)

lemma fetchone_None_iff: "fetchone [f x. x \<leftarrow> xs, P x] = None \<longleftrightarrow> (\<forall>x\<in>set xs. \<not> P x)"
  by (auto simp add: fetchone_filter_find find_None_iff)

lemma fetchone_Some_iff: "(\<exists>y. fetchone [f x. x \<leftarrow> xs, P x] = Some y) \<longleftrightarrow> (\<exists>x\<in>set xs. P x)"
  using fetchone_None_iff [where f = f and P = P and xs = xs]
  by (cases "fetchone [f x. x \<leftarrow> xs, P x]") auto

lemma concat_map_if_filter:
  "concat (map (\<lambda>x. if P x then [f x] else []) xs) = map f (filter P xs)"
  by (induction xs) simp_all

lemma py_gt_Inl: "py_gt x y = Inl e \<longleftrightarrow> e = TypeError \<and> (x = None \<or> y = None)"
  by (cases x; cases y; cases e) (simp_all add: py_gt_def)

lemma py_gt_Inr: "py_gt x y = Inr v \<longleftrightarrow> (\<exists>a b. x = Some a \<and> y = Some b \<and> v = float_lt b a)"
  by (cases x; cases y) (auto simp add: py_gt_def)

lemma compare_categories_eq:
  "compare_categories xs over no s =
     (if \<exists>p\<in>set xs. raises_TypeError s p then (Inl TypeError, s)
      else (Inr (over @ concat (map (over_budget_entry s) xs),
                 no @ concat (map (no_budget_entry s) xs)), s))"
proof (induction xs arbitrary: over no)
  case Nil
  show ?case by simp
next
  case (Cons p xs)
  obtain c x where p: "p = (c, x)" by (cases p)
  show ?case
  proof (cases "find (\<lambda>b. b_category b = c) (budgets s)")
    case None
    then have "\<not> raises_TypeError s (c, x)" "over_budget_entry s (c, x) = []"
      "no_budget_entry s (c, x) = [(c, x)]"
      by (simp_all add: raises_TypeError_def over_budget_entry_def no_budget_entry_def)
    with None show ?thesis
      by (simp add: p Cons.IH select_budget_amount_def fetchone_filter_find)
  next
    case (Some b)
    then have no: "no_budget_entry s (c, x) = []"
      by (simp add: no_budget_entry_def)
    show ?thesis
    proof (cases "py_gt x (b_budget_amount b)")
      case (Inl e)
      then have "e = TypeError" "x = None \<or> b_budget_amount b = None"
        by (simp_all add: py_gt_Inl)
      with Some have "raises_TypeError s (c, x)"
        by (simp add: raises_TypeError_def)
      with Some Inl \<open>e = TypeError\<close> show ?thesis
        by (simp add: p select_budget_amount_def fetchone_filter_find)
    next
      case (Inr v)
      then have "x \<noteq> None" "b_budget_amount b \<noteq> None"
        by (auto simp add: py_gt_Inr)
      with Some have ok: "\<not> raises_TypeError s (c, x)"
        by (simp add: raises_TypeError_def)
      from Some Inr have over: "over_budget_entry s (c, x) =
          (if v then [(c, x, b_budget_amount b)] else [])"
        by (simp add: over_budget_entry_def)
      from Some Inr ok over no show ?thesis
        by (simp add: p Cons.IH select_budget_amount_def fetchone_filter_find)
    qed
  qed
qed

lemma budget_summary_eq:
  "budget_summary fsum s =
     (if \<exists>c\<in>set (map e_category (expenses s)). raises_TypeError s (c, spent fsum s c)
      then (Inl TypeError, s)
      else
       (Inr \<lparr>total_income = or_zero (sql_sum fsum (map i_amount (income s))),
         total_expenses = or_zero (sql_sum fsum (map e_amount (expenses s))),
         total_budgeted = or_zero (sql_sum fsum (map b_budget_amount (budgets s))),
         balance = float_sub (or_zero (sql_sum fsum (map i_amount (income s))))
                     (or_zero (sql_sum fsum (map e_amount (expenses s)))),
         budget_status =
           (if float_le (or_zero (sql_sum fsum (map e_amount (expenses s))))
                 (or_zero (sql_sum fsum (map b_budget_amount (budgets s)))) \<and>
               float_lt (Fin 0)
                 (float_sub (or_zero (sql_sum fsum (map i_amount (income s))))
                    (or_zero (sql_sum fsum (map e_amount (expenses s)))))
            then ''within budget'' else ''over budget''),
         over_budget_categories =
           concat (map (over_budget_entry s)
             (map (\<lambda>c. (c, spent fsum s c)) (sort (remdups (map e_category (expenses s)))))),
         no_budget_categories =
           concat (map (no_budget_entry s)
             (map (\<lambda>c. (c, spent fsum s c)) (sort (remdups (map e_category (expenses s)))))),
         achieved_goals =
           map g_goal (filter (\<lambda>g. sql_ge (g_saved_amount g) (g_target_amount g))
             (financial_goals s))\<rparr>, s))"
  by (simp add: budget_summary_def select_sum_income_def select_sum_expenses_def
      select_sum_budgets_def select_expenses_group_by_category_def select_achieved_goals_def
      compare_categories_eq concat_map_if_filter Let_def)

lemma budget_summary_store: "snd (budget_summary fsum s) = s"
  by (simp add: budget_summary_eq)

lemma report_error: "report fsum s = Inl e \<Longrightarrow> e = TypeError"
  by (simp add: budget_summary_eq split: if_splits)

lemma report_raises:
  "(\<exists>e. report fsum s = Inl e) \<longleftrightarrow>
     (\<exists>c\<in>set (map e_category (expenses s)). raises_TypeError s (c, spent fsum s c))"
  by (simp add: budget_summary_eq)

text \<open>
  Rounding at work: one tenth is not a binary64 number, and adding 1 to \<open>10 ^ 16\<close>
  changes nothing.
\<close>

lemma round_double_examples:
  "round_double (1 / 10) = Fin (3602879701896397 / 2 ^ 55)"
  "float_add (Fin 10000000000000000) (Fin 1) = Fin 10000000000000000"
  "float_sub PInf PInf = NaN"
  by (simp_all add: float_eval)

lemma report_Inr:
  assumes "report fsum s = Inr r"
  shows "total_income r = or_zero (sql_sum fsum (map i_amount (income s)))"
    and "total_expenses r = or_zero (sql_sum fsum (map e_amount (expenses s)))"
    and "total_budgeted r = or_zero (sql_sum fsum (map b_budget_amount (budgets s)))"
    and "balance r = float_sub (total_income r) (total_expenses r)"
    and "budget_status r =
           (if float_le (total_expenses r) (total_budgeted r) \<and> float_lt (Fin 0) (balance r)
            then ''within budget'' else ''over budget'')"
    and "over_budget_categories r =
           concat (map (over_budget_entry s)
             (map (\<lambda>c. (c, spent fsum s c)) (sort (remdups (map e_category (expenses s))))))"
    and "no_budget_categories r =
           concat (map (no_budget_entry s)
             (map (\<lambda>c. (c, spent fsum s c)) (sort (remdups (map e_category (expenses s))))))"
    and "achieved_goals r =
           map g_goal (filter (\<lambda>g. sql_ge (g_saved_amount g) (g_target_amount g))
             (financial_goals s))"
    and "\<forall>c\<in>set (map e_category (expenses s)). \<not> raises_TypeError s (c, spent fsum s c)"
  using assms by (auto simp add: budget_summary_eq split: if_splits)

lemma in_over_budget_entry:
  "(c', x', y) \<in> set (over_budget_entry s (c, x)) \<longleftrightarrow>
     c' = c \<and> x' = x \<and>
     (\<exists>b. find (\<lambda>b. b_category b = c) (budgets s) = Some b \<and> y = b_budget_amount b \<and>
          py_gt x (b_budget_amount b) = Inr True)"
  by (cases "find (\<lambda>b. b_category b = c) (budgets s)") (auto simp add: over_budget_entry_def)

lemma in_no_budget_entry:
  "(c', x') \<in> set (no_budget_entry s (c, x)) \<longleftrightarrow>
     c' = c \<and> x' = x \<and> find (\<lambda>b. b_category b = c) (budgets s) = None"
  by (cases "find (\<lambda>b. b_category b = c) (budgets s)") (auto simp add: no_budget_entry_def)

lemma over_budget_set:
  assumes "report fsum s = Inr r"
  shows "(c, x, y) \<in> set (over_budget_categories r) \<longleftrightarrow>
     c \<in> set (map e_category (expenses s)) \<and> x = spent fsum s c \<and>
     (\<exists>b. find (\<lambda>b. b_category b = c) (budgets s) = Some b \<and> y = b_budget_amount b \<and>
          py_gt (spent fsum s c) (b_budget_amount b) = Inr True)"
  by (simp add: report_Inr(6) [OF assms] in_over_budget_entry) blast

lemma no_budget_set:
  assumes "report fsum s = Inr r"
  shows "(c, x) \<in> set (no_budget_categories r) \<longleftrightarrow>
     c \<in> set (map e_category (expenses s)) \<and> x = spent fsum s c \<and>
     find (\<lambda>b. b_category b = c) (budgets s) = None"
  by (simp add: report_Inr(7) [OF assms] in_no_budget_entry) auto

lemma over_budget_fst:
  assumes "report fsum s = Inr r"
  shows "c \<in> fst ` set (over_budget_categories r) \<longleftrightarrow>
     c \<in> set (map e_category (expenses s)) \<and>
     (\<exists>b. find (\<lambda>b. b_category b = c) (budgets s) = Some b \<and>
          py_gt (spent fsum s c) (b_budget_amount b) = Inr True)"
proof -
  have "c \<in> fst ` set (over_budget_categories r) \<longleftrightarrow>
      (\<exists>x y. (c, x, y) \<in> set (over_budget_categories r))"
    by force
  then show ?thesis
    by (simp add: over_budget_set [OF assms])
qed

lemma no_budget_fst:
  assumes "report fsum s = Inr r"
  shows "c \<in> fst ` set (no_budget_categories r) \<longleftrightarrow>
     c \<in> set (map e_category (expenses s)) \<and> find (\<lambda>b. b_category b = c) (budgets s) = None"
proof -
  have "c \<in> fst ` set (no_budget_categories r) \<longleftrightarrow>
      (\<exists>x. (c, x) \<in> set (no_budget_categories r))"
    by force
  then show ?thesis
    by (simp add: no_budget_set [OF assms])
qed

section \<open>The summary reads only\<close>

text \<open>
  C8. For every store, running \<open>budget_summary\<close> leaves the four tables exactly as they
  were: each of its statements is a \<open>SELECT\<close>, and the store that comes out of the last
  one, or of the one that raises, is the store that went into the first.
\<close>

theorem budget_summary_reads_only:
  "snd (budget_summary fsum s) = s \<and> run fsum Budget_summary s = s"
  by (simp add: budget_summary_store)

section \<open>Overall status\<close>

text \<open>
  When the summary is printed, its overall status is "within budget" exactly when total
  expenses \<open><=\<close> total budgeted and the balance, total income minus total expenses, is
  \<open>> 0\<close>, in Python's float comparisons, and "over budget" otherwise. The three totals
  are what \<open>SUM\<close> returns for the amount columns, with \<open>0.0\<close> for \<open>NULL\<close>.
\<close>

lemma status_when_printed:
  assumes "report fsum s = Inr r"
  shows "(budget_status r = ''within budget'' \<longleftrightarrow>
            float_le (total_expenses r) (total_budgeted r) \<and> float_lt (Fin 0) (balance r)) \<and>
         (budget_status r = ''over budget'' \<longleftrightarrow>
            \<not> (float_le (total_expenses r) (total_budgeted r) \<and> float_lt (Fin 0) (balance r))) \<and>
         balance r = float_sub (total_income r) (total_expenses r) \<and>
         total_income r = or_zero (sql_sum fsum (map i_amount (income s))) \<and>
         total_expenses r = or_zero (sql_sum fsum (map e_amount (expenses s))) \<and>
         total_budgeted r = or_zero (sql_sum fsum (map b_budget_amount (budgets s)))"
  using report_Inr(1-5) [OF assms] by simp

text \<open>
  The status is a function of the three totals: two printed summaries with the same
  totals have the same status, whatever their per-category lists are.
\<close>

lemma status_depends_on_totals_only:
  assumes "report fsum s = Inr r" and "report fsum' s' = Inr r'"
    and "total_income r = total_income r'" and "total_expenses r = total_expenses r'"
    and "total_budgeted r = total_budgeted r'"
  shows "budget_status r = budget_status r'"
  using report_Inr(4,5) [OF assms(1)] report_Inr(4,5) [OF assms(2)] assms(3-5) by simp

text \<open>
  C1 says that every store gets its status from the three totals alone. The program
  does not get that far on a store it can produce itself: after \<open>set_budget\<close> of
  Groceries with the amount typed as \<open>nan\<close>, which \<open>get_amount\<close> accepts and SQLite
  stores as \<open>NULL\<close>, the loop over the categories evaluates \<open>50.0 > None\<close>, and the
  \<open>TypeError\<close> ends \<open>budget_summary\<close> before any status is computed.
\<close>

theorem summary_ends_before_status:
  "offered create_database (Set_budget ''Groceries'' NaN) \<and>
   budgets (run fsum (Set_budget ''Groceries'' NaN) create_database) ! 0 =
     \<lparr>b_id = 1, b_category = ''Groceries'', b_budget_amount = None\<rparr> \<and>
   report fsum (run fsum (Set_budget ''Groceries'' NaN) create_database) = Inl TypeError"
  by (simp add: store_defs summary_defs float_eval split: option.splits)

section \<open>Per-category classification\<close>

text \<open>
  When the summary is printed, every category \<open>c\<close> of the expenses table is classified
  as follows, with \<open>spent fsum s c\<close> the \<open>SUM\<close> of the amounts of its expense rows: if no
  budget row has the category \<open>c\<close>, \<open>(c, spent)\<close> is listed under "no budget set" and
  nothing for \<open>c\<close> under "over budget"; if a budget row matches (\<open>b\<close> is the first one,
  the row that \<open>fetchone\<close> returns), both amounts are floats, and \<open>c\<close> is listed under
  "over budget" with \<open>(c, spent, budgeted)\<close> when \<open>spent > budgeted\<close> and in neither list
  otherwise.
\<close>

lemma classification_when_printed:
  assumes "report fsum s = Inr r" and "c \<in> set (map e_category (expenses s))"
  shows
    "((\<forall>b\<in>set (budgets s). b_category b \<noteq> c) \<longrightarrow>
        (c, spent fsum s c) \<in> set (no_budget_categories r) \<and>
        c \<notin> fst ` set (over_budget_categories r)) \<and>
     (\<forall>b. find (\<lambda>b. b_category b = c) (budgets s) = Some b \<longrightarrow>
        (\<exists>x y. spent fsum s c = Some x \<and> b_budget_amount b = Some y \<and>
           (float_lt y x \<longrightarrow>
              (c, Some x, Some y) \<in> set (over_budget_categories r) \<and>
              c \<notin> fst ` set (no_budget_categories r)) \<and>
           (\<not> float_lt y x \<longrightarrow>
              c \<notin> fst ` set (over_budget_categories r) \<and>
              c \<notin> fst ` set (no_budget_categories r))))"
proof -
  have none: "find (\<lambda>b. b_category b = c) (budgets s) = None \<longleftrightarrow>
      (\<forall>b\<in>set (budgets s). b_category b \<noteq> c)"
    by (auto simp add: find_None_iff)
  have fetched: "\<exists>x y. spent fsum s c = Some x \<and> b_budget_amount b = Some y"
    if "find (\<lambda>b. b_category b = c) (budgets s) = Some b" for b
    using report_Inr(9) [OF assms(1)] assms(2) that
    by (auto simp add: raises_TypeError_def)
  show ?thesis
    unfolding over_budget_fst [OF assms(1)] no_budget_fst [OF assms(1)]
      over_budget_set [OF assms(1)] no_budget_set [OF assms(1)]
    using assms(2) none fetched by (auto simp add: py_gt_def)
qed

text \<open>
  C2 says that every category of every store is classified. The program does not
  classify any on a store it can produce itself: after \<open>update_expense\<close> of Groceries
  with the amount typed as \<open>nan\<close>, the summed Groceries expense is \<open>NULL\<close>, the loop
  evaluates \<open>None > 300.0\<close>, and the \<open>TypeError\<close> ends \<open>budget_summary\<close> with neither
  list printed.
\<close>

theorem summary_ends_before_classification:
  "offered create_database (Update_expense ''Groceries'' NaN) \<and>
   spent fsum (run fsum (Update_expense ''Groceries'' NaN) create_database) ''Groceries'' = None \<and>
   report fsum (run fsum (Update_expense ''Groceries'' NaN) create_database) = Inl TypeError"
  by (simp add: store_defs summary_defs float_eval split: option.splits)

section \<open>The seed data with the Groceries budget cut to 10\<close>

text \<open>
  C3, as the program computes it. The seed data has total income 2950, total expenses
  240 and total budgeted 900. After \<open>set_budget\<close> of Groceries to 10 the over-budget list
  is \<open>[(Groceries, 50, 10)]\<close> and the overall status is still "within budget": total
  expenses 240 \<open>\<le>\<close> total budgeted 610 (that is 10 + 150 + 100 + 200 + 150) and the
  balance is 2710.
\<close>

theorem groceries_budget_cut:
  "report sum_plain create_database =
     Inr \<lparr>total_income = Fin 2950, total_expenses = Fin 240, total_budgeted = Fin 900,
          balance = Fin 2710, budget_status = ''within budget'',
          over_budget_categories = [], no_budget_categories = [], achieved_goals = []\<rparr> \<and>
   report sum_plain (fst (set_budget ''Groceries'' (Fin 10) create_database)) =
     Inr \<lparr>total_income = Fin 2950, total_expenses = Fin 240, total_budgeted = Fin 610,
          balance = Fin 2710, budget_status = ''within budget'',
          over_budget_categories = [(''Groceries'', Some (Fin 50), Some (Fin 10))],
          no_budget_categories = [], achieved_goals = []\<rparr>"
  by (simp add: store_defs summary_defs float_eval)

text \<open>The total budgeted after the cut is 610, not 860.\<close>

theorem groceries_budget_cut_counterexample:
  "\<not> isl (report sum_plain (fst (set_budget ''Groceries'' (Fin 10) create_database))) \<and>
   total_budgeted (projr (report sum_plain
     (fst (set_budget ''Groceries'' (Fin 10) create_database)))) = Fin 610 \<and>
   total_budgeted (projr (report sum_plain
     (fst (set_budget ''Groceries'' (Fin 10) create_database)))) \<noteq> Fin 860"
  by (simp add: store_defs summary_defs float_eval)

section \<open>Achieved goals\<close>

lemma float_lt_not_le: "float_lt x y \<Longrightarrow> \<not> float_le y x"
  by (cases x; cases y) simp_all

lemma float_le_refl: "x \<noteq> NaN \<Longrightarrow> float_le x x"
  by (cases x) simp_all

text \<open>
  C7, as the program behaves. When the summary is printed, the goals it reports as
  achieved are the goal texts of exactly the rows whose stored saved amount is \<open>>=\<close> the
  stored target amount, in table order, a \<open>NULL\<close> on either side counting as not
  achieved. A row whose saved amount equals its target is reported; a goal whose only
  row has its stored saved amount below its stored target is not.
\<close>

theorem goal_achieved_iff:
  assumes "report fsum s = Inr r"
  shows
    "achieved_goals r =
       map g_goal (filter (\<lambda>g. sql_ge (g_saved_amount g) (g_target_amount g))
         (financial_goals s)) \<and>
     (n \<in> set (achieved_goals r) \<longleftrightarrow>
        (\<exists>g\<in>set (financial_goals s). g_goal g = n \<and>
           (\<exists>x y. g_saved_amount g = Some x \<and> g_target_amount g = Some y \<and> float_le y x))) \<and>
     (g \<in> set (financial_goals s) \<and> g_saved_amount g = Some x \<and> g_target_amount g = Some x \<and>
      x \<noteq> NaN \<longrightarrow>
        g_goal g \<in> set (achieved_goals r)) \<and>
     (g_saved_amount g = Some x \<and> g_target_amount g = Some y \<and> float_lt x y \<and>
      (\<forall>g'\<in>set (financial_goals s). g_goal g' = g_goal g \<longrightarrow> g' = g) \<longrightarrow>
        g_goal g \<notin> set (achieved_goals r))"
proof -
  have ge: "sql_ge v w \<longleftrightarrow> (\<exists>x y. v = Some x \<and> w = Some y \<and> float_le y x)" for v w
    by (cases v; cases w) (simp_all add: sql_ge_def)
  have mem: "n \<in> set (achieved_goals r) \<longleftrightarrow>
      (\<exists>g\<in>set (financial_goals s). g_goal g = n \<and>
         (\<exists>x y. g_saved_amount g = Some x \<and> g_target_amount g = Some y \<and> float_le y x))" for n
    unfolding report_Inr(8) [OF assms] by (auto simp add: ge)
  have at_goal: "g_goal g \<in> set (achieved_goals r)"
    if "g \<in> set (financial_goals s)" "g_saved_amount g = Some x" "g_target_amount g = Some x"
      "x \<noteq> NaN"
    unfolding mem using that float_le_refl [of x] by blast
  have below: "g_goal g \<notin> set (achieved_goals r)"
    if "g_saved_amount g = Some x" "g_target_amount g = Some y" "float_lt x y"
      "\<forall>g'\<in>set (financial_goals s). g_goal g' = g_goal g \<longrightarrow> g' = g"
    unfolding mem using that float_lt_not_le [of x y] by auto
  show ?thesis
    using report_Inr(8) [OF assms] mem at_goal below by blast
qed

theorem goal_achieved_iff_witness:
  "report sum_plain (fst (update_financial_goal ''New laptop'' (round_double 1999.99)
       (fst (update_financial_goal ''Vacation'' (Fin 5000) create_database)))) =
     Inr \<lparr>total_income = Fin 2950, total_expenses = Fin 240, total_budgeted = Fin 900,
          balance = Fin 2710, budget_status = ''within budget'',
          over_budget_categories = [], no_budget_categories = [],
          achieved_goals = [''Vacation'']\<rparr> \<and>
   float_lt (round_double 1999.99) (Fin 2000) \<and>
   ''Vacation'' \<in> set (achieved_goals
     \<lparr>total_income = Fin 2950, total_expenses = Fin 240, total_budgeted = Fin 900,
      balance = Fin 2710, budget_status = ''within budget'',
      over_budget_categories = [], no_budget_categories = [],
      achieved_goals = [''Vacation'']\<rparr>) \<and>
   ''New laptop'' \<notin> set (achieved_goals
     \<lparr>total_income = Fin 2950, total_expenses = Fin 240, total_budgeted = Fin 900,
      balance = Fin 2710, budget_status = ''within budget'',
      over_budget_categories = [], no_budget_categories = [],
      achieved_goals = [''Vacation'']\<rparr>)"
proof -
  define s where "s = fst (update_financial_goal ''New laptop'' (round_double 1999.99)
       (fst (update_financial_goal ''Vacation'' (Fin 5000) create_database)))"
  define r where "r = \<lparr>total_income = Fin 2950, total_expenses = Fin 240,
      total_budgeted = Fin 900, balance = Fin 2710, budget_status = ''within budget'',
      over_budget_categories = [], no_budget_categories = [],
      achieved_goals = [''Vacation'']\<rparr>"
  let ?vacation = "\<lparr>g_id = 2, g_goal = ''Vacation'', g_target_amount = Some (Fin 5000),
      g_saved_amount = Some (Fin 5000)\<rparr>"
  let ?laptop = "\<lparr>g_id = 5, g_goal = ''New laptop'', g_target_amount = Some (Fin 2000),
      g_saved_amount = Some (round_double 1999.99)\<rparr>"
  have low: "float_lt (round_double 1999.99) (Fin 2000)"
    by (simp add: float_eval)
  then have finite: "round_double 1999.99 \<noteq> NaN"
    by (cases "round_double 1999.99") simp_all
  have goals: "financial_goals s =
     [\<lparr>g_id = 1, g_goal = ''Buy a car'', g_target_amount = Some (Fin 20000),
       g_saved_amount = Some (Fin 5000)\<rparr>,
      ?vacation,
      \<lparr>g_id = 3, g_goal = ''Emergency fund'', g_target_amount = Some (Fin 10000),
       g_saved_amount = Some (Fin 3000)\<rparr>,
      \<lparr>g_id = 4, g_goal = ''Home renovation'', g_target_amount = Some (Fin 15000),
       g_saved_amount = Some (Fin 4000)\<rparr>,
      ?laptop]"
    using finite by (simp add: s_def store_defs sqlite_double_def)
  have printed: "report sum_plain s = Inr r"
    by (simp add: s_def r_def store_defs summary_defs float_eval)
  have at_goal: "?vacation \<in> set (financial_goals s) \<and>
      g_saved_amount ?vacation = Some (Fin 5000) \<and> g_target_amount ?vacation = Some (Fin 5000) \<and>
      Fin 5000 \<noteq> NaN"
    by (simp add: goals)
  have below: "g_saved_amount ?laptop = Some (round_double 1999.99) \<and>
      g_target_amount ?laptop = Some (Fin 2000) \<and>
      float_lt (round_double 1999.99) (Fin 2000) \<and>
      (\<forall>g'\<in>set (financial_goals s). g_goal g' = g_goal ?laptop \<longrightarrow> g' = ?laptop)"
    using low by (simp add: goals)
  have "g_goal ?vacation \<in> set (achieved_goals r)"
    using goal_achieved_iff [OF printed, of _ ?vacation "Fin 5000"] at_goal by blast
  moreover have "g_goal ?laptop \<notin> set (achieved_goals r)"
    using goal_achieved_iff [OF printed, of _ ?laptop "round_double 1999.99" "Fin 2000"] below
    by blast
  ultimately show ?thesis
    using printed low unfolding s_def [symmetric] r_def [symmetric] by simp
qed

text \<open>
  A saved amount typed 0.01 below the target need not be stored below it: the texts
  \<open>100000000000000000\<close> and \<open>99999999999999999.99\<close> are read as the same float, and
  the goal is reported as achieved.
\<close>

theorem goal_achieved_iff_counterexample:
  "(99999999999999999.99 :: real) = 100000000000000000 - 0.01 \<and>
   round_double 99999999999999999.99 = round_double 100000000000000000 \<and>
   report sum_plain (fst (set_financial_goal ''Boat'' (round_double 100000000000000000)
       (round_double 99999999999999999.99) create_database)) =
     Inr \<lparr>total_income = Fin 2950, total_expenses = Fin 240, total_budgeted = Fin 900,
          balance = Fin 2710, budget_status = ''within budget'',
          over_budget_categories = [], no_budget_categories = [],
          achieved_goals = [''Boat'']\<rparr>"
  by (simp add: store_defs summary_defs float_eval)

section \<open>Duplicate budget rows\<close>

lemma find_filter_implied:
  "(\<And>x. P x \<Longrightarrow> Q x) \<Longrightarrow> find P (filter Q xs) = find P xs"
  by (induction xs) auto

lemma find_first_match:
  "\<forall>x\<in>set pre. \<not> P x \<Longrightarrow> P b \<Longrightarrow> find P (pre @ b # post) = Some b"
  by (induction pre) auto

lemma find_append_filter:
  "(\<And>x. P x \<Longrightarrow> Q x) \<Longrightarrow> find P (pre @ filter Q post) = find P (pre @ post)"
  by (induction pre) (auto simp add: find_filter_implied)

lemma find_drop_later_duplicates:
  assumes "\<forall>x\<in>set pre. b_category x \<noteq> b_category b"
  shows "find (\<lambda>x. b_category x = c)
           (pre @ b # filter (\<lambda>x. b_category x \<noteq> b_category b) post) =
         find (\<lambda>x. b_category x = c) (pre @ b # post)"
proof (cases "c = b_category b")
  case True
  with assms show ?thesis
    by (simp add: find_first_match)
next
  case False
  then have "find (\<lambda>x. b_category x = c)
           ((pre @ [b]) @ filter (\<lambda>x. b_category x \<noteq> b_category b) post) =
         find (\<lambda>x. b_category x = c) ((pre @ [b]) @ post)"
    by (intro find_append_filter) auto
  then show ?thesis by simp
qed

lemma spent_budgets_update [simp]: "spent fsum (s\<lparr>budgets := bs\<rparr>) c = spent fsum s c"
  by (simp add: spent_def)

text \<open>
  C10. When the budgets table is \<open>pre @ b # post\<close> with \<open>b\<close> the first row of its
  category, the comparison for that category uses the amount of \<open>b\<close> only: in a printed
  summary the category is listed as over budget exactly with
  \<open>(category, spent, b_budget_amount b)\<close> and exactly when \<open>spent\<close> exceeds that amount,
  and both lists are the same as in the store with the later rows of that category
  removed, which prints a summary exactly when this store does. The later rows are
  still counted in total budgeted, which is the \<open>SUM\<close> over all rows.
\<close>

theorem duplicate_budget_rows:
  assumes "budgets s = pre @ b # post"
    and "\<forall>x\<in>set pre. b_category x \<noteq> b_category b"
    and "b_category b \<in> set (map e_category (expenses s))"
  shows
    "(\<forall>r. report fsum s = Inr r \<longrightarrow>
        (\<forall>x y. (b_category b, x, y) \<in> set (over_budget_categories r) \<longleftrightarrow>
           x = spent fsum s (b_category b) \<and> y = b_budget_amount b \<and>
           py_gt (spent fsum s (b_category b)) (b_budget_amount b) = Inr True) \<and>
        b_category b \<notin> fst ` set (no_budget_categories r) \<and>
        (\<exists>r'. report fsum
                (s\<lparr>budgets := pre @ b # filter (\<lambda>x. b_category x \<noteq> b_category b) post\<rparr>) =
                Inr r' \<and>
              over_budget_categories r' = over_budget_categories r \<and>
              no_budget_categories r' = no_budget_categories r) \<and>
        total_budgeted r =
          or_zero (sql_sum fsum
            (map b_budget_amount pre @ b_budget_amount b # map b_budget_amount post))) \<and>
     ((\<exists>e. report fsum s = Inl e) \<longleftrightarrow>
      (\<exists>e. report fsum
              (s\<lparr>budgets := pre @ b # filter (\<lambda>x. b_category x \<noteq> b_category b) post\<rparr>) =
              Inl e))"
proof -
  let ?s' = "s\<lparr>budgets := pre @ b # filter (\<lambda>x. b_category x \<noteq> b_category b) post\<rparr>"
  have first: "find (\<lambda>x. b_category x = b_category b) (budgets s) = Some b"
    using assms(1,2) by (simp add: find_first_match)
  have same: "find (\<lambda>x. b_category x = c) (budgets ?s') =
      find (\<lambda>x. b_category x = c) (budgets s)" for c
    using assms(1) find_drop_later_duplicates [OF assms(2)] by simp
  have over_entry: "over_budget_entry ?s' = over_budget_entry s"
    by (rule ext) (simp only: over_budget_entry_def same)
  have no_entry: "no_budget_entry ?s' = no_budget_entry s"
    by (rule ext) (simp only: no_budget_entry_def same)
  have raises: "raises_TypeError ?s' = raises_TypeError s"
    by (rule ext) (simp only: raises_TypeError_def same)
  have errors: "(\<exists>e. report fsum s = Inl e) \<longleftrightarrow> (\<exists>e. report fsum ?s' = Inl e)"
    unfolding report_raises by (simp add: raises)
  have printed: "(\<forall>x y. (b_category b, x, y) \<in> set (over_budget_categories r) \<longleftrightarrow>
           x = spent fsum s (b_category b) \<and> y = b_budget_amount b \<and>
           py_gt (spent fsum s (b_category b)) (b_budget_amount b) = Inr True) \<and>
        b_category b \<notin> fst ` set (no_budget_categories r) \<and>
        (\<exists>r'. report fsum ?s' = Inr r' \<and>
              over_budget_categories r' = over_budget_categories r \<and>
              no_budget_categories r' = no_budget_categories r) \<and>
        total_budgeted r =
          or_zero (sql_sum fsum
            (map b_budget_amount pre @ b_budget_amount b # map b_budget_amount post))"
    if r: "report fsum s = Inr r" for r
  proof -
    have "\<forall>x y. (b_category b, x, y) \<in> set (over_budget_categories r) \<longleftrightarrow>
           x = spent fsum s (b_category b) \<and> y = b_budget_amount b \<and>
           py_gt (spent fsum s (b_category b)) (b_budget_amount b) = Inr True"
      using assms(3) first by (auto simp add: over_budget_set [OF r])
    moreover have "b_category b \<notin> fst ` set (no_budget_categories r)"
      using first by (simp add: no_budget_fst [OF r])
    moreover have "\<exists>r'. report fsum ?s' = Inr r' \<and>
              over_budget_categories r' = over_budget_categories r \<and>
              no_budget_categories r' = no_budget_categories r"
    proof -
      from r errors obtain r' where r': "report fsum ?s' = Inr r'"
        by (cases "report fsum ?s'") auto
      have "over_budget_categories r' = over_budget_categories r"
        unfolding report_Inr(6) [OF r] report_Inr(6) [OF r'] by (simp add: over_entry)
      moreover have "no_budget_categories r' = no_budget_categories r"
        unfolding report_Inr(7) [OF r] report_Inr(7) [OF r'] by (simp add: no_entry)
      ultimately show ?thesis
        using r' by blast
    qed
    moreover have "total_budgeted r =
          or_zero (sql_sum fsum
            (map b_budget_amount pre @ b_budget_amount b # map b_budget_amount post))"
      using assms(1) by (simp add: report_Inr(3) [OF r])
    ultimately show ?thesis by blast
  qed
  show ?thesis
    using printed errors by blast
qed

theorem duplicate_budget_rows_witness:
  "budgets (create_database\<lparr>budgets :=
       [\<lparr>b_id = 1, b_category = ''Groceries'', b_budget_amount = Some (Fin 10)\<rparr>,
        \<lparr>b_id = 2, b_category = ''Groceries'', b_budget_amount = Some (Fin 300)\<rparr>]\<rparr>) =
     [] @ \<lparr>b_id = 1, b_category = ''Groceries'', b_budget_amount = Some (Fin 10)\<rparr> #
       [\<lparr>b_id = 2, b_category = ''Groceries'', b_budget_amount = Some (Fin 300)\<rparr>] \<and>
   ''Groceries'' \<in> set (map e_category (expenses (create_database\<lparr>budgets :=
       [\<lparr>b_id = 1, b_category = ''Groceries'', b_budget_amount = Some (Fin 10)\<rparr>,
        \<lparr>b_id = 2, b_category = ''Groceries'', b_budget_amount = Some (Fin 300)\<rparr>]\<rparr>))) \<and>
   report sum_plain (create_database\<lparr>budgets :=
       [\<lparr>b_id = 1, b_category = ''Groceries'', b_budget_amount = Some (Fin 10)\<rparr>,
        \<lparr>b_id = 2, b_category = ''Groceries'', b_budget_amount = Some (Fin 300)\<rparr>]\<rparr>) =
     Inr \<lparr>total_income = Fin 2950, total_expenses = Fin 240, total_budgeted = Fin 310,
          balance = Fin 2710, budget_status = ''within budget'',
          over_budget_categories = [(''Groceries'', Some (Fin 50), Some (Fin 10))],
          no_budget_categories =
            [(''Dining'', Some (Fin 30)), (''Entertainment'', Some (Fin 40)),
             (''Transport'', Some (Fin 20)), (''Utilities'', Some (Fin 100))],
          achieved_goals = []\<rparr> \<and>
   (''Groceries'', Some (Fin 50), Some (Fin 300)) \<notin> set (over_budget_categories
     \<lparr>total_income = Fin 2950, total_expenses = Fin 240, total_budgeted = Fin 310,
      balance = Fin 2710, budget_status = ''within budget'',
      over_budget_categories = [(''Groceries'', Some (Fin 50), Some (Fin 10))],
      no_budget_categories =
        [(''Dining'', Some (Fin 30)), (''Entertainment'', Some (Fin 40)),
         (''Transport'', Some (Fin 20)), (''Utilities'', Some (Fin 100))],
      achieved_goals = []\<rparr>)"
proof -
  let ?b = "\<lparr>b_id = 1, b_category = ''Groceries'', b_budget_amount = Some (Fin 10)\<rparr>"
  let ?post = "[\<lparr>b_id = 2, b_category = ''Groceries'', b_budget_amount = Some (Fin 300)\<rparr>]"
  define s where "s = create_database\<lparr>budgets :=
       [\<lparr>b_id = 1, b_category = ''Groceries'', b_budget_amount = Some (Fin 10)\<rparr>,
        \<lparr>b_id = 2, b_category = ''Groceries'', b_budget_amount = Some (Fin 300)\<rparr>]\<rparr>"
  define r where "r = \<lparr>total_income = Fin 2950, total_expenses = Fin 240,
      total_budgeted = Fin 310, balance = Fin 2710, budget_status = ''within budget'',
      over_budget_categories = [(''Groceries'', Some (Fin 50), Some (Fin 10))],
      no_budget_categories =
        [(''Dining'', Some (Fin 30)), (''Entertainment'', Some (Fin 40)),
         (''Transport'', Some (Fin 20)), (''Utilities'', Some (Fin 100))],
      achieved_goals = []\<rparr>"
  have split: "budgets s = [] @ ?b # ?post"
    by (simp add: s_def)
  have pre: "\<forall>x\<in>set []. b_category x \<noteq> b_category ?b"
    by simp
  have cat: "b_category ?b \<in> set (map e_category (expenses s))"
    by (simp add: s_def create_database_def)
  have printed: "report sum_plain s = Inr r"
    by (simp add: s_def r_def store_defs summary_defs float_eval)
  have amount: "spent sum_plain s ''Groceries'' = Some (Fin 50)"
    by (simp add: s_def create_database_def spent_def float_eval)
  note w = duplicate_budget_rows [OF split pre cat, of sum_plain]
  have iff: "(''Groceries'', x, y) \<in> set (over_budget_categories r) \<longleftrightarrow>
      x = Some (Fin 50) \<and> y = Some (Fin 10)" for x y
    using w printed amount by (simp add: py_gt_def)
  have "(''Groceries'', Some (Fin 50), Some (Fin 300)) \<notin> set (over_budget_categories r)"
    by (simp add: iff)
  then show ?thesis
    using printed split cat unfolding s_def [symmetric] r_def [symmetric] by simp
qed

section \<open>Adding an expense whose category exists\<close>

text \<open>
  C4. For every store that has an expense row of category \<open>c\<close>, \<open>insert_expense\<close> with
  category \<open>c\<close> is rejected ("Category already exists", the spec's \<open>DuplicateCategory\<close>)
  and returns the store as it was: no row is inserted or changed in any table.
\<close>

theorem insert_expense_duplicate:
  assumes "c \<in> set (map e_category (expenses s))"
  shows "insert_expense c a d s = (s, Category_already_exists)"
proof -
  from assms have "\<exists>e\<in>set (expenses s). e_category e = c"
    by auto
  then obtain y where "fetchone [e_category e. e \<leftarrow> expenses s, e_category e = c] = Some y"
    using fetchone_Some_iff [where f = e_category and P = "\<lambda>e. e_category e = c"
        and xs = "expenses s"] by blast
  then show ?thesis
    by (simp add: insert_expense_def)
qed

theorem insert_expense_duplicate_witness:
  "''Groceries'' \<in> set (map e_category (expenses create_database)) \<and>
   insert_expense ''Groceries'' (Fin 75) ''2025-01-01'' create_database =
     (create_database, Category_already_exists)"
proof -
  have h: "''Groceries'' \<in> set (map e_category (expenses create_database))"
    by (simp add: create_database_def)
  show ?thesis
    using h insert_expense_duplicate [OF h] by simp
qed

section \<open>Updating an amount by its text key\<close>

lemma map_if_id: "\<forall>x\<in>set xs. \<not> P x \<Longrightarrow> map (\<lambda>x. if P x then f x else x) xs = xs"
  by (induction xs) auto

lemma update_expenses_no_match:
  assumes "key \<notin> set (map e_category (expenses s))"
  shows "update_expenses_set_amount key a s = s"
proof -
  from assms have "\<forall>e\<in>set (expenses s). \<not> e_category e = key"
    by auto
  then have "map (\<lambda>e. if e_category e = key then e\<lparr>e_amount := sqlite_double a\<rparr> else e)
      (expenses s) = expenses s"
    by (rule map_if_id)
  then show ?thesis
    by (simp add: update_expenses_set_amount_def)
qed

lemma update_income_no_match:
  assumes "key \<notin> set (map i_category (income s))"
  shows "update_income_set_amount key a s = s"
proof -
  from assms have "\<forall>r\<in>set (income s). \<not> i_category r = key"
    by auto
  then have "map (\<lambda>r. if i_category r = key then r\<lparr>i_amount := sqlite_double a\<rparr> else r)
      (income s) = income s"
    by (rule map_if_id)
  then show ?thesis
    by (simp add: update_income_set_amount_def)
qed

lemma update_financial_goals_no_match:
  assumes "key \<notin> set (map g_goal (financial_goals s))"
  shows "update_financial_goals_set_saved_amount key a s = s"
proof -
  from assms have "\<forall>g\<in>set (financial_goals s). \<not> g_goal g = key"
    by auto
  then have "map (\<lambda>g. if g_goal g = key then g\<lparr>g_saved_amount := sqlite_double a\<rparr> else g)
      (financial_goals s) = financial_goals s"
    by (rule map_if_id)
  then show ?thesis
    by (simp add: update_financial_goals_set_saved_amount_def)
qed

lemma update_financial_goal_offered:
  assumes "offered s (Update_financial_goal key a)"
  shows "update_financial_goal key a s =
     (update_financial_goals_set_saved_amount key a s, Goal_updated)"
proof -
  from assms have "\<exists>g\<in>set (financial_goals s). g_goal g = key"
    by auto
  then obtain r where "fetchone [g. g \<leftarrow> financial_goals s, g_goal g = key] = Some r"
    using fetchone_Some_iff [where f = "\<lambda>g. g" and P = "\<lambda>g. g_goal g = key"
        and xs = "financial_goals s"] by blast
  then show ?thesis
    by (simp add: update_financial_goal_def)
qed

text \<open>
  C5. The \<open>UPDATE\<close> statements of \<open>update_expense\<close>, \<open>update_income\<close> and
  \<open>update_financial_goal\<close> set the amount (the saved amount, for goals) of every row
  whose category or goal text equals the key and leave every other row and the other
  tables as they were; with a key that matches no row they leave the whole store
  unchanged. \<open>update_expense\<close> and \<open>update_income\<close> run their statement and report
  success for every key, and so does \<open>update_financial_goal\<close> for every goal text the
  menu passes to it.
\<close>

theorem update_amount_effect:
  "((key \<notin> set (map e_category (expenses s)) \<longrightarrow> update_expenses_set_amount key a s = s) \<and>
    length (expenses (update_expenses_set_amount key a s)) = length (expenses s) \<and>
    (\<forall>i<length (expenses s). expenses (update_expenses_set_amount key a s) ! i =
       (if e_category (expenses s ! i) = key
        then (expenses s ! i)\<lparr>e_amount := sqlite_double a\<rparr> else expenses s ! i)) \<and>
    income (update_expenses_set_amount key a s) = income s \<and>
    budgets (update_expenses_set_amount key a s) = budgets s \<and>
    financial_goals (update_expenses_set_amount key a s) = financial_goals s \<and>
    update_expense key a s = (update_expenses_set_amount key a s, Expense_updated)) \<and>
   ((key \<notin> set (map i_category (income s)) \<longrightarrow> update_income_set_amount key a s = s) \<and>
    length (income (update_income_set_amount key a s)) = length (income s) \<and>
    (\<forall>i<length (income s). income (update_income_set_amount key a s) ! i =
       (if i_category (income s ! i) = key
        then (income s ! i)\<lparr>i_amount := sqlite_double a\<rparr> else income s ! i)) \<and>
    expenses (update_income_set_amount key a s) = expenses s \<and>
    budgets (update_income_set_amount key a s) = budgets s \<and>
    financial_goals (update_income_set_amount key a s) = financial_goals s \<and>
    update_income key a s = (update_income_set_amount key a s, Income_updated)) \<and>
   ((key \<notin> set (map g_goal (financial_goals s)) \<longrightarrow>
       update_financial_goals_set_saved_amount key a s = s) \<and>
    length (financial_goals (update_financial_goals_set_saved_amount key a s)) =
      length (financial_goals s) \<and>
    (\<forall>i<length (financial_goals s).
       financial_goals (update_financial_goals_set_saved_amount key a s) ! i =
       (if g_goal (financial_goals s ! i) = key
        then (financial_goals s ! i)\<lparr>g_saved_amount := sqlite_double a\<rparr>
        else financial_goals s ! i)) \<and>
    expenses (update_financial_goals_set_saved_amount key a s) = expenses s \<and>
    income (update_financial_goals_set_saved_amount key a s) = income s \<and>
    budgets (update_financial_goals_set_saved_amount key a s) = budgets s \<and>
    (offered s (Update_financial_goal key a) \<longrightarrow>
       update_financial_goal key a s =
         (update_financial_goals_set_saved_amount key a s, Goal_updated)))"
proof -
  have expense: "length (expenses (update_expenses_set_amount key a s)) = length (expenses s) \<and>
    (\<forall>i<length (expenses s). expenses (update_expenses_set_amount key a s) ! i =
       (if e_category (expenses s ! i) = key
        then (expenses s ! i)\<lparr>e_amount := sqlite_double a\<rparr> else expenses s ! i)) \<and>
    income (update_expenses_set_amount key a s) = income s \<and>
    budgets (update_expenses_set_amount key a s) = budgets s \<and>
    financial_goals (update_expenses_set_amount key a s) = financial_goals s \<and>
    update_expense key a s = (update_expenses_set_amount key a s, Expense_updated)"
    by (simp add: update_expenses_set_amount_def update_expense_def)
  have inc: "length (income (update_income_set_amount key a s)) = length (income s) \<and>
    (\<forall>i<length (income s). income (update_income_set_amount key a s) ! i =
       (if i_category (income s ! i) = key
        then (income s ! i)\<lparr>i_amount := sqlite_double a\<rparr> else income s ! i)) \<and>
    expenses (update_income_set_amount key a s) = expenses s \<and>
    budgets (update_income_set_amount key a s) = budgets s \<and>
    financial_goals (update_income_set_amount key a s) = financial_goals s \<and>
    update_income key a s = (update_income_set_amount key a s, Income_updated)"
    by (simp add: update_income_set_amount_def update_income_def)
  have goal: "length (financial_goals (update_financial_goals_set_saved_amount key a s)) =
      length (financial_goals s) \<and>
    (\<forall>i<length (financial_goals s).
       financial_goals (update_financial_goals_set_saved_amount key a s) ! i =
       (if g_goal (financial_goals s ! i) = key
        then (financial_goals s ! i)\<lparr>g_saved_amount := sqlite_double a\<rparr>
        else financial_goals s ! i)) \<and>
    expenses (update_financial_goals_set_saved_amount key a s) = expenses s \<and>
    income (update_financial_goals_set_saved_amount key a s) = income s \<and>
    budgets (update_financial_goals_set_saved_amount key a s) = budgets s"
    by (simp add: update_financial_goals_set_saved_amount_def)
  show ?thesis
    using expense inc goal update_expenses_no_match [of key s a]
      update_income_no_match [of key s a] update_financial_goals_no_match [of key s a]
      update_financial_goal_offered [of s key a]
    by blast
qed

theorem update_amount_effect_witness:
  "''Boat'' \<notin> set (map e_category (expenses create_database)) \<and>
   update_expense ''Boat'' (Fin 100) create_database = (create_database, Expense_updated) \<and>
   ''Boat'' \<notin> set (map i_category (income create_database)) \<and>
   update_income ''Boat'' (Fin 100) create_database = (create_database, Income_updated) \<and>
   ''Boat'' \<notin> set (map g_goal (financial_goals create_database)) \<and>
   update_financial_goals_set_saved_amount ''Boat'' (Fin 100) create_database =
     create_database \<and>
   offered create_database (Update_financial_goal ''Vacation'' (Fin 5000)) \<and>
   snd (update_financial_goal ''Vacation'' (Fin 5000) create_database) = Goal_updated \<and>
   financial_goals (fst (update_financial_goal ''Vacation'' (Fin 5000) create_database)) ! 1 =
     \<lparr>g_id = 2, g_goal = ''Vacation'', g_target_amount = Some (Fin 5000),
      g_saved_amount = Some (Fin 5000)\<rparr>"
proof -
  define s where "s = create_database"
  have no_expense: "''Boat'' \<notin> set (map e_category (expenses s))"
    and no_income: "''Boat'' \<notin> set (map i_category (income s))"
    and no_goal: "''Boat'' \<notin> set (map g_goal (financial_goals s))"
    and vacation: "offered s (Update_financial_goal ''Vacation'' (Fin 5000))"
    by (simp_all add: s_def create_database_def)
  have second: "(1::nat) < length (financial_goals s)"
    "g_goal (financial_goals s ! 1) = ''Vacation''"
    "(financial_goals s ! 1)\<lparr>g_saved_amount := sqlite_double (Fin 5000)\<rparr> =
       \<lparr>g_id = 2, g_goal = ''Vacation'', g_target_amount = Some (Fin 5000),
        g_saved_amount = Some (Fin 5000)\<rparr>"
    by (simp_all add: s_def create_database_def sqlite_double_def)
  note boat = update_amount_effect [of "''Boat''" s "Fin 100"]
  note vac = update_amount_effect [of "''Vacation''" s "Fin 5000"]
  have "update_expense ''Boat'' (Fin 100) s = (s, Expense_updated)"
    using boat no_expense by simp
  moreover have "update_income ''Boat'' (Fin 100) s = (s, Income_updated)"
    using boat no_income by simp
  moreover have "update_financial_goals_set_saved_amount ''Boat'' (Fin 100) s = s"
    using boat no_goal by blast
  moreover have upd: "update_financial_goal ''Vacation'' (Fin 5000) s =
      (update_financial_goals_set_saved_amount ''Vacation'' (Fin 5000) s, Goal_updated)"
    using vac vacation by blast
  moreover have "financial_goals (update_financial_goals_set_saved_amount ''Vacation''
        (Fin 5000) s) ! 1 =
      (if g_goal (financial_goals s ! 1) = ''Vacation''
       then (financial_goals s ! 1)\<lparr>g_saved_amount := sqlite_double (Fin 5000)\<rparr>
       else financial_goals s ! 1)"
    using vac second(1) by blast
  ultimately show ?thesis
    unfolding s_def [symmetric] using no_expense no_income no_goal vacation second by simp
qed

section \<open>Deleting an expense category\<close>

text \<open>
  C6. For every store and category \<open>c\<close>, \<open>delete_expense\<close> removes exactly the expense
  rows of category \<open>c\<close> and exactly the budget rows of category \<open>c\<close>, keeps every other
  expense and budget row in place, and leaves the income and financial goal tables
  unchanged; if no budget row has category \<open>c\<close>, the budgets table is unchanged.
\<close>

theorem delete_expense_effect:
  "expenses (fst (delete_expense c s)) = filter (\<lambda>e. e_category e \<noteq> c) (expenses s) \<and>
   budgets (fst (delete_expense c s)) = filter (\<lambda>b. b_category b \<noteq> c) (budgets s) \<and>
   income (fst (delete_expense c s)) = income s \<and>
   financial_goals (fst (delete_expense c s)) = financial_goals s \<and>
   c \<notin> set (map e_category (expenses (fst (delete_expense c s)))) \<and>
   c \<notin> set (map b_category (budgets (fst (delete_expense c s)))) \<and>
   (c \<notin> set (map b_category (budgets s)) \<longrightarrow>
      budgets (fst (delete_expense c s)) = budgets s)"
proof -
  have "c \<notin> set (map b_category (budgets s)) \<Longrightarrow>
      filter (\<lambda>b. b_category b \<noteq> c) (budgets s) = budgets s"
    by (induction "budgets s") (auto simp add: filter_id_conv)
  then show ?thesis
    by (auto simp add: delete_expense_def Let_def)
qed

theorem delete_expense_effect_witness:
  "''Rent'' \<notin> set (map b_category (budgets
       (fst (insert_expense ''Rent'' (Fin 700) ''2025-01-01'' create_database)))) \<and>
   budgets (fst (delete_expense ''Rent''
       (fst (insert_expense ''Rent'' (Fin 700) ''2025-01-01'' create_database)))) =
     budgets (fst (insert_expense ''Rent'' (Fin 700) ''2025-01-01'' create_database)) \<and>
   ''Rent'' \<notin> set (map e_category (expenses (fst (delete_expense ''Rent''
       (fst (insert_expense ''Rent'' (Fin 700) ''2025-01-01'' create_database))))))"
proof -
  define s where "s = fst (insert_expense ''Rent'' (Fin 700) ''2025-01-01'' create_database)"
  have h: "''Rent'' \<notin> set (map b_category (budgets s))"
    by (simp add: s_def store_defs)
  note w = delete_expense_effect [of "''Rent''" s]
  from w h have "budgets (fst (delete_expense ''Rent'' s)) = budgets s"
    by blast
  moreover from w have "''Rent'' \<notin> set (map e_category (expenses (fst (delete_expense ''Rent'' s))))"
    by blast
  ultimately show ?thesis
    unfolding s_def [symmetric] using h by blast
qed

section \<open>Budget categories stay unique\<close>

lemma map_category_set_amount:
  "map b_category (map (\<lambda>b. if b_category b = c then b\<lparr>b_budget_amount := a\<rparr> else b) bs) =
     map b_category bs"
  by (induction bs) simp_all

lemma set_budget_budgets_distinct:
  assumes "distinct (map b_category (budgets s))"
  shows "distinct (map b_category (budgets (fst (set_budget c a s))))"
proof (cases "fetchone [b_budget_amount b. b \<leftarrow> budgets s, b_category b = c]")
  case None
  then have "\<forall>b\<in>set (budgets s). \<not> b_category b = c"
    using fetchone_None_iff [where f = b_budget_amount and P = "\<lambda>b. b_category b = c"
        and xs = "budgets s"] by simp
  then have "c \<notin> set (map b_category (budgets s))"
    by auto
  with assms None show ?thesis
    by (simp add: set_budget_def)
next
  case (Some existing_budget)
  then have "budgets (fst (set_budget c a s)) =
      map (\<lambda>b. if b_category b = c then b\<lparr>b_budget_amount := sqlite_double a\<rparr> else b)
        (budgets s)"
    by (simp add: set_budget_def)
  with assms show ?thesis
    by (simp only: map_category_set_amount)
qed

lemma delete_expense_budgets_distinct:
  "distinct (map b_category (budgets s)) \<Longrightarrow>
     distinct (map b_category (budgets (fst (delete_expense c s))))"
  by (simp add: delete_expense_def Let_def distinct_map_filter)

lemma other_operations_keep_budgets:
  "budgets (fst (insert_expense c a d s)) = budgets s"
  "budgets (fst (update_expense c a s)) = budgets s"
  "budgets (fst (insert_income c a d s)) = budgets s"
  "budgets (fst (update_income c a s)) = budgets s"
  "budgets (fst (delete_income c s)) = budgets s"
  "budgets (fst (set_financial_goal g t a s)) = budgets s"
  "budgets (fst (update_financial_goal g a s)) = budgets s"
  "budgets (fst (delete_financial_goal g s)) = budgets s"
  by (simp_all add: insert_expense_def update_expense_def update_expenses_set_amount_def
      insert_income_def update_income_def update_income_set_amount_def
      delete_income_def set_financial_goal_def update_financial_goal_def
      update_financial_goals_set_saved_amount_def
      delete_financial_goal_def split: option.split)

lemma run_budgets_distinct:
  "distinct (map b_category (budgets s)) \<Longrightarrow>
     distinct (map b_category (budgets (run fsum op s)))"
  by (cases op)
     (simp_all add: other_operations_keep_budgets set_budget_budgets_distinct
        delete_expense_budgets_distinct budget_summary_store)

lemma seed_budgets_distinct: "distinct (map b_category (budgets create_database))"
  by (simp add: create_database_def)

text \<open>
  C9. In every store reachable from the seed data by the operations of the menus, no two
  budget rows have the same category text; and every operation preserves this property:
  \<open>set_budget\<close> updates the existing row instead of inserting when the category has a
  budget, \<open>delete_expense\<close> removes all budget rows of the category, and the other
  operations do not write to the budgets table.
\<close>

theorem budget_category_unique:
  "(reachable fsum s \<longrightarrow> distinct (map b_category (budgets s))) \<and>
   (distinct (map b_category (budgets s)) \<longrightarrow>
      distinct (map b_category (budgets (run fsum op s))))"
proof -
  have "distinct (map b_category (budgets s))" if "reachable fsum s"
    using that by (induction rule: reachable.induct)
      (simp_all add: seed_budgets_distinct run_budgets_distinct)
  then show ?thesis
    by (simp add: run_budgets_distinct)
qed

theorem budget_category_unique_witness:
  "reachable sum_plain (run sum_plain (Set_budget ''Rent'' (Fin 800))
      (run sum_plain (Add_expense ''Rent'' (Fin 700) ''2025-01-01'')
      (run sum_plain (Delete_expense ''Dining'')
      (run sum_plain (Set_budget ''Groceries'' (Fin 10)) create_database)))) \<and>
   distinct (map b_category (budgets
     (run sum_plain (Set_budget ''Rent'' (Fin 800))
      (run sum_plain (Add_expense ''Rent'' (Fin 700) ''2025-01-01'')
      (run sum_plain (Delete_expense ''Dining'')
      (run sum_plain (Set_budget ''Groceries'' (Fin 10)) create_database)))))) \<and>
   distinct (map b_category (budgets
     (run sum_plain (Set_budget ''Groceries'' (Fin 20))
       (run sum_plain (Set_budget ''Rent'' (Fin 800))
        (run sum_plain (Add_expense ''Rent'' (Fin 700) ''2025-01-01'')
        (run sum_plain (Delete_expense ''Dining'')
        (run sum_plain (Set_budget ''Groceries'' (Fin 10)) create_database)))))))"
proof -
  define s1 where "s1 = run sum_plain (Set_budget ''Groceries'' (Fin 10)) create_database"
  define s2 where "s2 = run sum_plain (Delete_expense ''Dining'') s1"
  define s3 where "s3 = run sum_plain (Add_expense ''Rent'' (Fin 700) ''2025-01-01'') s2"
  define s4 where "s4 = run sum_plain (Set_budget ''Rent'' (Fin 800)) s3"
  have r1: "reachable sum_plain s1"
    unfolding s1_def by (rule reachable.step [OF reachable.seed]) (simp add: create_database_def)
  have r2: "reachable sum_plain s2"
    unfolding s2_def by (rule reachable.step [OF r1]) (simp add: s1_def store_defs)
  have r3: "reachable sum_plain s3"
    unfolding s3_def by (rule reachable.step [OF r2]) simp
  have r4: "reachable sum_plain s4"
    unfolding s4_def
    by (rule reachable.step [OF r3]) (simp add: s3_def s2_def s1_def store_defs Let_def)
  have d4: "distinct (map b_category (budgets s4))"
    using budget_category_unique [of sum_plain s4] r4 by blast
  then have "distinct (map b_category (budgets (run sum_plain (Set_budget ''Groceries'' (Fin 20)) s4)))"
    using budget_category_unique [of sum_plain s4 "Set_budget ''Groceries'' (Fin 20)"] by blast
  with r4 d4 show ?thesis
    unfolding s4_def s3_def s2_def s1_def by blast
qed

end
